theory Spec2Isabelle
  imports Main "HOL-Library.Word"
begin

section \<open>DeviceKeyHelperRK: saving and restoring the device keys\<close>

text \<open>
  A shallow embedding of \<^verbatim>\<open>src/DeviceKeyHelperRK.cpp\<close>. The class \<^verbatim>\<open>DeviceKeyHelper\<close>
  becomes a record, its methods become functions that pass the state of the device
  explicitly, and every call into the platform (DCT write, \<^verbatim>\<open>System.reset\<close>,
  \<^verbatim>\<open>Particle.disconnect\<close>) or into the application's \<^verbatim>\<open>save\<close> callback is
  recorded, in order, in a trace of effects. Logging is left out: it changes no state.
\<close>

subsection \<open>Constants and data of the header\<close>

type_synonym byte = "8 word"

text \<open>
  The header \<^verbatim>\<open>DeviceKeyHelperRK.h\<close> is not among the sources, so the constants it
  declares are parameters of the model: the sentinel \<^verbatim>\<open>DATA_HEADER_MAGIC\<close>, the size
  of the key region \<^verbatim>\<open>DEVICE_KEYS_HELPER_SIZE\<close> (a \<^verbatim>\<open>size_t\<close>, kept as a natural number)
  and the firmware version \<^verbatim>\<open>SYSTEM_VERSION\<close> that selects the branches of the
  \<^verbatim>\<open>#if SYSTEM_VERSION >= 0x00080000\<close> directives. \<^verbatim>\<open>DEVICE_KEYS_HELPER_OFFSET\<close> only
  locates the key region inside the DCT; the model holds the key region itself.
\<close>

record platform =
  DATA_HEADER_MAGIC :: "32 word"
  DEVICE_KEYS_HELPER_SIZE :: nat
  SYSTEM_VERSION :: nat

text \<open>
  Modelled from the spec: the declaration of \<^verbatim>\<open>DeviceKeyHelperSavedData\<close> is in the
  missing header. The source reads and writes the fields \<^verbatim>\<open>magic\<close>, \<^verbatim>\<open>size\<close>, \<^verbatim>\<open>sum\<close>
  and \<^verbatim>\<open>keys\<close>; the spec gives the layout (magic: 4 bytes; size: 4 bytes; checksum: 2
  bytes; payload: fixed N bytes). \<^verbatim>\<open>keys\<close> is an array of \<^verbatim>\<open>DEVICE_KEYS_HELPER_SIZE\<close>
  bytes: a list whose length is stated by \<open>wf_saved\<close>.
\<close>

record DeviceKeyHelperSavedData =
  magic :: "32 word"
  size_fld :: "32 word"
  sum_fld :: "16 word"
  keys :: "byte list"

definition wf_saved :: "platform \<Rightarrow> DeviceKeyHelperSavedData \<Rightarrow> bool" where
  "wf_saved p d = (length (keys d) = DEVICE_KEYS_HELPER_SIZE p)"

text \<open>The four modes of \<^verbatim>\<open>check\<close> that the source names.\<close>

datatype CheckMode =
    CHECKMODE_AUTOMATIC
  | CHECKMODE_AUTOMATIC_NO_RESTART
  | CHECKMODE_CHECK_ONLY
  | CHECKMODE_SAVE_CURRENT

subsection \<open>Checksum and validation\<close>

text \<open>
  \<^verbatim>\<open>for(size_t ii = 0; ii < DEVICE_KEYS_HELPER_SIZE; ii++) sum += savedData->keys[ii];\<close>
  with \<^verbatim>\<open>uint16_t sum\<close>: each byte is widened and added with 16-bit wrap-around.
\<close>

function calculateChecksum_loop :: "nat \<Rightarrow> byte list \<Rightarrow> nat \<Rightarrow> 16 word \<Rightarrow> 16 word" where
  "calculateChecksum_loop n ks ii sm =
     (if ii < n then calculateChecksum_loop n ks (Suc ii) (sm + ucast (ks ! ii)) else sm)"
  by pat_completeness auto
termination
  by (relation "measure (\<lambda>(n, ks, ii, sm). n - ii)") auto

declare calculateChecksum_loop.simps [simp del]

definition calculateChecksum :: "platform \<Rightarrow> DeviceKeyHelperSavedData \<Rightarrow> 16 word" where
  "calculateChecksum p savedData =
     calculateChecksum_loop (DEVICE_KEYS_HELPER_SIZE p) (keys savedData) 0 0"

text \<open>
  The field \<^verbatim>\<open>size\<close> is compared with the \<^verbatim>\<open>size_t\<close> constant after the usual
  conversion to the wider unsigned type, that is, by value.
\<close>

definition validateData :: "platform \<Rightarrow> DeviceKeyHelperSavedData \<Rightarrow> bool" where
  "validateData p savedData =
     (if magic savedData \<noteq> DATA_HEADER_MAGIC p
         \<or> unat (size_fld savedData) \<noteq> DEVICE_KEYS_HELPER_SIZE p then False
      else if sum_fld savedData \<noteq> calculateChecksum p savedData then False
      else True)"

subsection \<open>The device: key region, application store, platform effects\<close>

text \<open>
  What the device does besides returning a value. \<open>DctWrite\<close> is a call of
  \<^verbatim>\<open>dct_write_app_data\<close> with the bytes written, \<open>Save\<close> a call of the application's
  \<^verbatim>\<open>save\<close> callback with the record passed, \<open>SystemReset\<close> a call of
  \<^verbatim>\<open>System.reset()\<close> and \<open>ParticleDisconnect\<close> a call of \<^verbatim>\<open>Particle.disconnect()\<close>.
\<close>

datatype effect =
    DctWrite "byte list"
  | Save DeviceKeyHelperSavedData
  | SystemReset
  | ParticleDisconnect

text \<open>
  The state outside the object: \<open>dct\<close> is the live key region (the
  \<^verbatim>\<open>DEVICE_KEYS_HELPER_SIZE\<close> bytes of the DCT at \<^verbatim>\<open>DEVICE_KEYS_HELPER_OFFSET\<close>), \<open>app\<close>
  the application's storage behind the \<^verbatim>\<open>load\<close> and \<^verbatim>\<open>save\<close> callbacks,
  \<open>new_onDevice_ok\<close> and \<open>new_saved_ok\<close> say whether the two \<^verbatim>\<open>new\<close> expressions of
  \<^verbatim>\<open>check\<close> yield a buffer (the source tests both pointers), \<open>diag_chunks\<close> is what
  \<^verbatim>\<open>system_format_diag_data\<close> hands to the appender, and \<open>trace\<close> lists the effects so
  far, oldest first.
\<close>

record 'a world =
  dct :: "byte list"
  app :: 'a
  new_onDevice_ok :: bool
  new_saved_ok :: bool
  diag_chunks :: "byte list list"
  trace :: "effect list"

definition wf_world :: "platform \<Rightarrow> 'a world \<Rightarrow> bool" where
  "wf_world p w = (length (dct w) = DEVICE_KEYS_HELPER_SIZE p)"

text \<open>
  The object. \<^verbatim>\<open>load\<close> fills the record it is given and returns a flag; it is a reader
  of the application's storage. \<^verbatim>\<open>save\<close> returns a flag and may change that storage.
  \<^verbatim>\<open>failureCount\<close> is a C \<^verbatim>\<open>int\<close> (it is printed with \<^verbatim>\<open>%d\<close>), 32 bits on the
  targets: a word that is read as a signed number by \<open>sint\<close>, so that
  \<^verbatim>\<open>failureCount++\<close> at 2147483647 wraps to -2147483648 as the compiled code does.
\<close>

record 'a DeviceKeyHelper =
  load :: "'a \<Rightarrow> DeviceKeyHelperSavedData \<Rightarrow> bool \<times> DeviceKeyHelperSavedData"
  save :: "'a \<Rightarrow> DeviceKeyHelperSavedData \<Rightarrow> bool \<times> 'a"
  connected :: bool
  failureCount :: "32 word"

text \<open>\<^verbatim>\<open>memcmp(a, b, n) == 0\<close> and \<^verbatim>\<open>memcpy(dst, src, n)\<close> on arrays held as lists.\<close>

definition memcmp0 :: "byte list \<Rightarrow> byte list \<Rightarrow> nat \<Rightarrow> bool" where
  "memcmp0 a c n = (take n a = take n c)"

definition memcpy :: "byte list \<Rightarrow> byte list \<Rightarrow> nat \<Rightarrow> byte list" where
  "memcpy dst src n = take n src @ drop n dst"

text \<open>
  Modelled from the spec: the platform calls are not part of the sources. The read
  returns the whole live region, the write overwrites it (its status is only logged by
  the caller), and a restart or a disconnect is a request after which execution goes on.
\<close>

definition dct_read_app_data_copy :: "platform \<Rightarrow> 'a world \<Rightarrow> byte list" where
  "dct_read_app_data_copy p w = take (DEVICE_KEYS_HELPER_SIZE p) (dct w)"

definition dct_write_app_data :: "platform \<Rightarrow> byte list \<Rightarrow> 'a world \<Rightarrow> 'a world" where
  "dct_write_app_data p data w =
     w\<lparr>dct := memcpy (dct w) data (DEVICE_KEYS_HELPER_SIZE p),
       trace := trace w @ [DctWrite (take (DEVICE_KEYS_HELPER_SIZE p) data)]\<rparr>"

definition System_reset :: "'a world \<Rightarrow> 'a world" where
  "System_reset w = w\<lparr>trace := trace w @ [SystemReset]\<rparr>"

definition Particle_disconnect :: "'a world \<Rightarrow> 'a world" where
  "Particle_disconnect w = w\<lparr>trace := trace w @ [ParticleDisconnect]\<rparr>"

text \<open>\<^verbatim>\<open>save(saved)\<close>: the callback runs on the application's storage; its flag is dropped.\<close>

definition call_save :: "'a DeviceKeyHelper \<Rightarrow> DeviceKeyHelperSavedData \<Rightarrow> 'a world \<Rightarrow> 'a world" where
  "call_save h saved w =
     w\<lparr>app := snd (save h (app w) saved), trace := trace w @ [Save saved]\<rparr>"

text \<open>\<^verbatim>\<open>new DeviceKeyHelperSavedData()\<close> value-initialises the plain struct: all zero.\<close>

definition new_DeviceKeyHelperSavedData :: "platform \<Rightarrow> DeviceKeyHelperSavedData" where
  "new_DeviceKeyHelperSavedData p =
     \<lparr>magic = 0, size_fld = 0, sum_fld = 0,
      keys = replicate (DEVICE_KEYS_HELPER_SIZE p) 0\<rparr>"

subsection \<open>check\<close>

text \<open>
  Lines 43 to 84: the decision on the loaded record. The result is the value of
  \<^verbatim>\<open>result\<close>, the value of \<^verbatim>\<open>saveKeys\<close> and the device afterwards.
\<close>

definition check_compare ::
  "platform \<Rightarrow> CheckMode \<Rightarrow> byte list \<Rightarrow> bool \<Rightarrow> DeviceKeyHelperSavedData \<Rightarrow> 'a world
     \<Rightarrow> bool \<times> bool \<times> 'a world" where
  "check_compare p checkMode onDevice loaded saved w =
     (if loaded then
        if validateData p saved then
          if checkMode = CHECKMODE_SAVE_CURRENT then (True, True, w)
          else if \<not> memcmp0 onDevice (keys saved) (DEVICE_KEYS_HELPER_SIZE p) then
            (False, False,
             if checkMode \<noteq> CHECKMODE_CHECK_ONLY then
               (let w1 = dct_write_app_data p (keys saved) w
                in if checkMode \<noteq> CHECKMODE_AUTOMATIC_NO_RESTART then System_reset w1 else w1)
             else w)
          else (True, False, w)
        else (True, True, w)
      else (True, True, w))"

text \<open>Lines 87 to 90: the record in the buffer is already what would be written.\<close>

definition keys_unchanged :: "platform \<Rightarrow> byte list \<Rightarrow> DeviceKeyHelperSavedData \<Rightarrow> bool" where
  "keys_unchanged p onDevice saved =
     (magic saved = DATA_HEADER_MAGIC p
      \<and> unat (size_fld saved) = DEVICE_KEYS_HELPER_SIZE p
      \<and> sum_fld saved = calculateChecksum p saved
      \<and> memcmp0 (keys saved) onDevice (DEVICE_KEYS_HELPER_SIZE p))"

text \<open>Lines 100 to 104: the record that is passed to \<^verbatim>\<open>save\<close>.\<close>

definition fresh_record :: "platform \<Rightarrow> byte list \<Rightarrow> DeviceKeyHelperSavedData \<Rightarrow> DeviceKeyHelperSavedData" where
  "fresh_record p onDevice saved =
     (let s1 = saved\<lparr>keys := memcpy (keys saved) onDevice (DEVICE_KEYS_HELPER_SIZE p)\<rparr>;
          s2 = s1\<lparr>magic := DATA_HEADER_MAGIC p\<rparr>;
          s3 = s2\<lparr>size_fld := word_of_nat (DEVICE_KEYS_HELPER_SIZE p)\<rparr>
      in s3\<lparr>sum_fld := calculateChecksum p s3\<rparr>)"

text \<open>Lines 86 to 107.\<close>

definition check_save ::
  "platform \<Rightarrow> 'a DeviceKeyHelper \<Rightarrow> byte list \<Rightarrow> DeviceKeyHelperSavedData \<Rightarrow> bool \<Rightarrow> 'a world
     \<Rightarrow> 'a world" where
  "check_save p h onDevice saved saveKeys w =
     (let saveKeys1 = (if saveKeys then
                         (if keys_unchanged p onDevice saved then False else saveKeys)
                       else saveKeys)
      in if saveKeys1 then call_save h (fresh_record p onDevice saved) w else w)"

definition check :: "platform \<Rightarrow> 'a DeviceKeyHelper \<Rightarrow> CheckMode \<Rightarrow> 'a world \<Rightarrow> bool \<times> 'a world" where
  "check p h checkMode w =
     (if new_onDevice_ok w then
        if new_saved_ok w then
          (let onDevice = dct_read_app_data_copy p w;
               (loaded, saved) = load h (app w) (new_DeviceKeyHelperSavedData p);
               (result, saveKeys, w1) = check_compare p checkMode onDevice loaded saved w
           in (result, check_save p h onDevice saved saveKeys w1))
        else (True, w)
      else (True, w))"

text \<open>What \<^verbatim>\<open>load(saved)\<close> yields inside \<^verbatim>\<open>check\<close>: the flag and the buffer afterwards.\<close>

definition load_result :: "platform \<Rightarrow> 'a DeviceKeyHelper \<Rightarrow> 'a world \<Rightarrow> bool \<times> DeviceKeyHelperSavedData" where
  "load_result p h w = load h (app w) (new_DeviceKeyHelperSavedData p)"

subsection \<open>The event handler\<close>

text \<open>
  \<^verbatim>\<open>getSystemDiagValue\<close>: the appender copies a chunk into the ten bytes \<^verbatim>\<open>b\<close> of the
  union when it fits; \<^verbatim>\<open>value\<close> is read from bytes 6 to 9 (the packed struct, little
  endian as on the targets). Below firmware 0.8.0 the function returns false.
\<close>

record Data =
  Data_b :: "byte list"
  Data_offset :: nat

definition appender :: "Data \<Rightarrow> byte list \<Rightarrow> Data" where
  "appender d chunk =
     (if Data_offset d + length chunk \<le> 10 then
        d\<lparr>Data_b := take (Data_offset d) (Data_b d) @ chunk
                      @ drop (Data_offset d + length chunk) (Data_b d),
          Data_offset := Data_offset d + length chunk\<rparr>
      else d)"

definition Data_value :: "Data \<Rightarrow> 32 word" where
  "Data_value d =
     ucast (Data_b d ! 6) + push_bit 8 (ucast (Data_b d ! 7))
       + push_bit 16 (ucast (Data_b d ! 8)) + push_bit 24 (ucast (Data_b d ! 9))"

definition getSystemDiagValue :: "platform \<Rightarrow> 'a world \<Rightarrow> bool \<times> 32 word" where
  "getSystemDiagValue p w =
     (if SYSTEM_VERSION p \<ge> 0x00080000 then
        (let d = fold (\<lambda>chunk d. appender d chunk) (diag_chunks w)
                   \<lparr>Data_b = replicate 10 0, Data_offset = 0\<rparr>
         in (Data_offset d = 10, Data_value d))
      else (False, 0))"

datatype system_event = cloud_status | other_event

datatype cloud_status_param =
    cloud_status_connecting
  | cloud_status_connected
  | cloud_status_disconnected
  | cloud_status_other int

text \<open>
  The sequence that both branches of the handler run on a suspected keys error:
  \<^verbatim>\<open>Particle.disconnect(); check(CheckMode::CHECKMODE_AUTOMATIC); System.reset();\<close>
\<close>

definition reset_keys_if_possible :: "platform \<Rightarrow> 'a DeviceKeyHelper \<Rightarrow> 'a world \<Rightarrow> 'a world" where
  "reset_keys_if_possible p h w =
     System_reset (snd (check p h CHECKMODE_AUTOMATIC (Particle_disconnect w)))"

definition eventHandler ::
  "platform \<Rightarrow> system_event \<Rightarrow> cloud_status_param \<Rightarrow> 'a DeviceKeyHelper \<times> 'a world
     \<Rightarrow> 'a DeviceKeyHelper \<times> 'a world" where
  "eventHandler p event param st =
     (let h = fst st; w = snd st in
      if event = cloud_status then
        if param = cloud_status_connecting then (h\<lparr>connected := False\<rparr>, w)
        else if param = cloud_status_connected then
          (let h1 = h\<lparr>connected := True\<rparr>;
               h2 = h1\<lparr>failureCount := 0\<rparr>
           in (h2, snd (check p h2 CHECKMODE_SAVE_CURRENT w)))
        else if param = cloud_status_disconnected then
          (if \<not> connected h then
             (if SYSTEM_VERSION p \<ge> 0x00080000 then
                (let (ok, v) = getSystemDiagValue p w
                 in if ok then
                      (if v = 26 \<or> v = 10 then (h, reset_keys_if_possible p h w) else (h, w))
                    else (h, w))
              else
                (let h1 = h\<lparr>failureCount := failureCount h + 1\<rparr>
                 in if sint (failureCount h1) \<ge> 3 then (h1, reset_keys_if_possible p h1 w)
                    else (h1, w)))
           else (h, w))
        else (h, w)
      else (h, w))"

text \<open>The platform delivers cloud status events one at a time, in order.\<close>

fun deliver ::
  "platform \<Rightarrow> cloud_status_param list \<Rightarrow> 'a DeviceKeyHelper \<times> 'a world
     \<Rightarrow> 'a DeviceKeyHelper \<times> 'a world" where
  "deliver p [] st = st"
| "deliver p (param # params) st = deliver p params (eventHandler p cloud_status param st)"

subsection \<open>Observations on traces\<close>

text \<open>The effects that a step from \<open>w\<close> to \<open>w'\<close> added.\<close>

definition emitted :: "'a world \<Rightarrow> 'a world \<Rightarrow> effect list" where
  "emitted w w' = drop (length (trace w)) (trace w')"

fun is_Save :: "effect \<Rightarrow> bool" where
  "is_Save (Save d) = True"
| "is_Save e = False"

fun is_DctWrite :: "effect \<Rightarrow> bool" where
  "is_DctWrite (DctWrite bs) = True"
| "is_DctWrite e = False"

definition save_count :: "effect list \<Rightarrow> nat" where
  "save_count es = length (filter is_Save es)"

subsection \<open>A sample device\<close>

text \<open>
  A small platform (four key bytes, firmware before 0.8.0) and an application store for
  the examples: \<open>Empty\<close> holds nothing and \<^verbatim>\<open>load\<close> fails without touching the buffer,
  \<open>Stored d\<close> loads \<open>d\<close>, and \<open>Unreadable d\<close> copies \<open>d\<close> into the buffer but reports failure.
  \<^verbatim>\<open>save\<close> stores the record.
\<close>

datatype store = Empty | Stored DeviceKeyHelperSavedData | Unreadable DeviceKeyHelperSavedData

fun store_load :: "store \<Rightarrow> DeviceKeyHelperSavedData \<Rightarrow> bool \<times> DeviceKeyHelperSavedData" where
  "store_load Empty buf = (False, buf)"
| "store_load (Stored d) buf = (True, d)"
| "store_load (Unreadable d) buf = (False, d)"

definition store_save :: "store \<Rightarrow> DeviceKeyHelperSavedData \<Rightarrow> bool \<times> store" where
  "store_save a d = (True, Stored d)"

definition sample_platform :: platform where
  "sample_platform =
     \<lparr>DATA_HEADER_MAGIC = 0x4B455953, DEVICE_KEYS_HELPER_SIZE = 4, SYSTEM_VERSION = 0x00070000\<rparr>"

definition sample_helper :: "store DeviceKeyHelper" where
  "sample_helper = \<lparr>load = store_load, save = store_save, connected = False, failureCount = 0\<rparr>"

definition sample_world :: "byte list \<Rightarrow> store \<Rightarrow> store world" where
  "sample_world live a =
     \<lparr>dct = live, app = a, new_onDevice_ok = True, new_saved_ok = True,
      diag_chunks = [], trace = []\<rparr>"

text \<open>A valid record for the keys 1, 2, 3, 4 (checksum 10) and one with a bad checksum.\<close>

definition sample_record :: DeviceKeyHelperSavedData where
  "sample_record = \<lparr>magic = 0x4B455953, size_fld = 4, sum_fld = 10, keys = [1, 2, 3, 4]\<rparr>"

definition bad_record :: DeviceKeyHelperSavedData where
  "bad_record = \<lparr>magic = 0x4B455953, size_fld = 4, sum_fld = 11, keys = [1, 2, 3, 4]\<rparr>"

text \<open>A platform with 258 key bytes and a record of 258 bytes 255, whose sum exceeds 16 bits.\<close>

definition wrap_platform :: platform where
  "wrap_platform =
     \<lparr>DATA_HEADER_MAGIC = 0x4B455953, DEVICE_KEYS_HELPER_SIZE = 258, SYSTEM_VERSION = 0x00070000\<rparr>"

definition wrap_record :: DeviceKeyHelperSavedData where
  "wrap_record = \<lparr>magic = 0x4B455953, size_fld = 258, sum_fld = 254, keys = replicate 258 255\<rparr>"

subsection \<open>Facts about the checksum\<close>

lemma calculateChecksum_loop_sum:
  "ii \<le> n \<Longrightarrow> n \<le> length ks \<Longrightarrow>
   calculateChecksum_loop n ks ii sm
     = sm + word_of_nat (sum_list (map unat (drop ii (take n ks))))"
proof (induction n ks ii sm rule: calculateChecksum_loop.induct)
  case (1 n ks ii sm)
  show ?case
  proof (cases "ii < n")
    case True
    with "1.prems" have lt: "ii < length (take n ks)" by simp
    have nth: "take n ks ! ii = ks ! ii" using True by simp
    have step: "drop ii (take n ks) = ks ! ii # drop (Suc ii) (take n ks)"
      using Cons_nth_drop_Suc [OF lt] nth by simp
    have "calculateChecksum_loop n ks ii sm
            = calculateChecksum_loop n ks (Suc ii) (sm + ucast (ks ! ii))"
      using True by (subst calculateChecksum_loop.simps) simp
    also have "\<dots> = sm + ucast (ks ! ii)
                     + word_of_nat (sum_list (map unat (drop (Suc ii) (take n ks))))"
      using "1.IH" [OF True] True "1.prems" by simp
    also have "\<dots> = sm + word_of_nat (sum_list (map unat (drop ii (take n ks))))"
      by (simp add: step add.assoc)
    finally show ?thesis .
  next
    case False
    with "1.prems" have "ii = n" by simp
    then show ?thesis
      by (subst calculateChecksum_loop.simps) simp
  qed
qed

lemma calculateChecksum_sum:
  "wf_saved p d \<Longrightarrow>
   calculateChecksum p d = word_of_nat (sum_list (map unat (keys d)))"
  by (simp add: calculateChecksum_def wf_saved_def calculateChecksum_loop_sum)

subsection \<open>Platform calls and buffers\<close>

lemma memcpy_whole: "length src = n \<Longrightarrow> length dst = n \<Longrightarrow> memcpy dst src n = src"
  by (simp add: memcpy_def)

lemma dct_read_wf: "wf_world p w \<Longrightarrow> dct_read_app_data_copy p w = dct w"
  by (simp add: dct_read_app_data_copy_def wf_world_def)

lemma memcmp0_wf:
  "wf_world p w \<Longrightarrow> wf_saved p d \<Longrightarrow>
   memcmp0 (dct_read_app_data_copy p w) (keys d) (DEVICE_KEYS_HELPER_SIZE p) \<longleftrightarrow> dct w = keys d"
  by (simp add: memcmp0_def dct_read_app_data_copy_def wf_world_def wf_saved_def)

lemma dct_write_wf:
  "wf_world p w \<Longrightarrow> wf_saved p d \<Longrightarrow>
   dct_write_app_data p (keys d) w = w\<lparr>dct := keys d, trace := trace w @ [DctWrite (keys d)]\<rparr>"
  by (simp add: dct_write_app_data_def memcpy_whole wf_world_def wf_saved_def)

lemma emitted_append [simp]: "trace w' = trace w @ es \<Longrightarrow> emitted w w' = es"
  by (simp add: emitted_def)

lemma emitted_same [simp]: "emitted w w = []"
  by (simp add: emitted_def)

lemma trace_dct_write [simp]:
  "trace (dct_write_app_data p data w)
     = trace w @ [DctWrite (take (DEVICE_KEYS_HELPER_SIZE p) data)]"
  by (simp add: dct_write_app_data_def)

lemma trace_System_reset [simp]: "trace (System_reset w) = trace w @ [SystemReset]"
  by (simp add: System_reset_def)

lemma trace_Particle_disconnect [simp]:
  "trace (Particle_disconnect w) = trace w @ [ParticleDisconnect]"
  by (simp add: Particle_disconnect_def)

lemma trace_call_save [simp]: "trace (call_save h d w) = trace w @ [Save d]"
  by (simp add: call_save_def)

lemma dct_call_save [simp]: "dct (call_save h d w) = dct w"
  by (simp add: call_save_def)

lemma dct_System_reset [simp]: "dct (System_reset w) = dct w"
  by (simp add: System_reset_def)

subsection \<open>The cases of check\<close>

text \<open>
  \<^verbatim>\<open>check\<close> by cases, with the two local flags eliminated: nothing happens without both
  buffers; a valid loaded record in a mode other than \<^verbatim>\<open>CHECKMODE_SAVE_CURRENT\<close> is
  compared with the live region; in every other case the current keys are saved unless
  the buffer already holds them.
\<close>

lemma check_cases:
  "check p h m w =
     (if \<not> (new_onDevice_ok w \<and> new_saved_ok w) then (True, w)
      else let onDevice = dct_read_app_data_copy p w;
               d = snd (load_result p h w)
           in if fst (load_result p h w) \<and> validateData p d \<and> m \<noteq> CHECKMODE_SAVE_CURRENT then
                if memcmp0 onDevice (keys d) (DEVICE_KEYS_HELPER_SIZE p) then (True, w)
                else (False,
                      if m = CHECKMODE_CHECK_ONLY then w
                      else if m = CHECKMODE_AUTOMATIC_NO_RESTART then dct_write_app_data p (keys d) w
                      else System_reset (dct_write_app_data p (keys d) w))
              else (True,
                    if keys_unchanged p onDevice d then w
                    else call_save h (fresh_record p onDevice d) w))"
  by (simp add: check_def check_compare_def check_save_def load_result_def Let_def
           split: prod.splits)

lemma invalid_not_unchanged: "\<not> validateData p d \<Longrightarrow> \<not> keys_unchanged p onDevice d"
  by (auto simp: validateData_def keys_unchanged_def)

text \<open>\<^verbatim>\<open>check\<close> only ever appends to the trace.\<close>

lemma check_trace_append:
  "trace (snd (check p h m w)) = trace w @ emitted w (snd (check p h m w))"
  by (simp add: check_cases Let_def)

text \<open>The three ways through \<^verbatim>\<open>check\<close>, one lemma each.\<close>

lemma check_no_buffers:
  "\<not> (new_onDevice_ok w \<and> new_saved_ok w) \<Longrightarrow> check p h m w = (True, w)"
  by (simp add: check_cases)

lemma check_compare_path:
  assumes "new_onDevice_ok w" "new_saved_ok w"
    and "fst (load_result p h w)" "validateData p (snd (load_result p h w))"
    and "m \<noteq> CHECKMODE_SAVE_CURRENT"
  shows "check p h m w =
     (if memcmp0 (dct_read_app_data_copy p w) (keys (snd (load_result p h w)))
           (DEVICE_KEYS_HELPER_SIZE p)
      then (True, w)
      else (False,
            if m = CHECKMODE_CHECK_ONLY then w
            else if m = CHECKMODE_AUTOMATIC_NO_RESTART
              then dct_write_app_data p (keys (snd (load_result p h w))) w
            else System_reset (dct_write_app_data p (keys (snd (load_result p h w))) w)))"
  using assms by (simp add: check_cases Let_def)

lemma check_save_path:
  assumes "new_onDevice_ok w" "new_saved_ok w"
    and "\<not> (fst (load_result p h w) \<and> validateData p (snd (load_result p h w))
             \<and> m \<noteq> CHECKMODE_SAVE_CURRENT)"
  shows "check p h m w =
     (True,
      if keys_unchanged p (dct_read_app_data_copy p w) (snd (load_result p h w)) then w
      else call_save h (fresh_record p (dct_read_app_data_copy p w) (snd (load_result p h w))) w)"
proof -
  from assms(3) have "(fst (load_result p h w) \<and> validateData p (snd (load_result p h w))
             \<and> m \<noteq> CHECKMODE_SAVE_CURRENT) = False"
    by simp
  with assms(1,2) show ?thesis
    by (simp only: check_cases Let_def simp_thms if_True if_False)
qed

subsection \<open>The record that is saved\<close>

text \<open>The record that \<^verbatim>\<open>check\<close> saves: its header and checksum, and its payload.\<close>

lemma calculateChecksum_keys:
  "keys d = keys d' \<Longrightarrow> calculateChecksum p d = calculateChecksum p d'"
  by (simp add: calculateChecksum_def)

lemma fresh_record_header:
  "magic (fresh_record p onDevice d) = DATA_HEADER_MAGIC p"
  "size_fld (fresh_record p onDevice d) = word_of_nat (DEVICE_KEYS_HELPER_SIZE p)"
  "sum_fld (fresh_record p onDevice d) = calculateChecksum p (fresh_record p onDevice d)"
  "keys (fresh_record p onDevice d) = memcpy (keys d) onDevice (DEVICE_KEYS_HELPER_SIZE p)"
  by (simp_all add: fresh_record_def Let_def calculateChecksum_def)

lemma unat_size_fld:
  "DEVICE_KEYS_HELPER_SIZE p < 2 ^ 32 \<Longrightarrow>
   unat (word_of_nat (DEVICE_KEYS_HELPER_SIZE p) :: 32 word) = DEVICE_KEYS_HELPER_SIZE p"
  by (simp add: unat_of_nat)

lemma fresh_record_valid:
  "DEVICE_KEYS_HELPER_SIZE p < 2 ^ 32 \<Longrightarrow> validateData p (fresh_record p onDevice d)"
  by (simp add: validateData_def fresh_record_header(1,2) unat_size_fld
        fresh_record_header(3) [symmetric])

lemma fresh_record_keys:
  "wf_world p w \<Longrightarrow> wf_saved p d \<Longrightarrow>
   keys (fresh_record p (dct_read_app_data_copy p w) d) = dct w"
  by (simp add: fresh_record_header(4) dct_read_wf memcpy_whole wf_world_def wf_saved_def)

lemma call_save_fields [simp]:
  "new_onDevice_ok (call_save h d w) = new_onDevice_ok w"
  "new_saved_ok (call_save h d w) = new_saved_ok w"
  "app (call_save h d w) = snd (save h (app w) d)"
  by (simp_all add: call_save_def)

lemma wf_world_call_save [simp]: "wf_world p (call_save h d w) = wf_world p w"
  by (simp add: wf_world_def)

lemma fresh_record_unchanged:
  assumes "length onDevice = DEVICE_KEYS_HELPER_SIZE p" "DEVICE_KEYS_HELPER_SIZE p < 2 ^ 32"
  shows "keys_unchanged p onDevice (fresh_record p onDevice d)"
  using assms
  by (simp add: keys_unchanged_def fresh_record_header(1,2) unat_size_fld
        fresh_record_header(3) [symmetric] fresh_record_header(4) memcmp0_def memcpy_def)

subsection \<open>The object's flags and the recovery sequence\<close>

text \<open>\<^verbatim>\<open>check\<close> uses only the two callbacks of the object.\<close>

lemma call_save_callbacks: "save h' = save h \<Longrightarrow> call_save h' d w = call_save h d w"
  by (simp add: call_save_def)

lemma check_save_callbacks:
  "save h' = save h \<Longrightarrow> check_save p h' onDevice d b w = check_save p h onDevice d b w"
  by (simp add: check_save_def call_save_callbacks [of h' h])

lemma check_callbacks:
  "load h' = load h \<Longrightarrow> save h' = save h \<Longrightarrow> check p h' m w = check p h m w"
  by (simp add: check_def check_save_callbacks [of h' h])

lemma Particle_disconnect_fields [simp]:
  "dct (Particle_disconnect w) = dct w"
  "app (Particle_disconnect w) = app w"
  "new_onDevice_ok (Particle_disconnect w) = new_onDevice_ok w"
  "new_saved_ok (Particle_disconnect w) = new_saved_ok w"
  by (simp_all add: Particle_disconnect_def)

lemma check_ignores_flags [simp]:
  "check p (h\<lparr>connected := c\<rparr>) m w = check p h m w"
  "check p (h\<lparr>failureCount := n\<rparr>) m w = check p h m w"
  by (rule check_callbacks; simp)+

lemma reset_keys_if_possible_ignores_flags [simp]:
  "reset_keys_if_possible p (h\<lparr>connected := c\<rparr>) w = reset_keys_if_possible p h w"
  "reset_keys_if_possible p (h\<lparr>failureCount := n\<rparr>) w = reset_keys_if_possible p h w"
  by (simp_all add: reset_keys_if_possible_def)

lemma reset_keys_if_possible_trace:
  "trace (reset_keys_if_possible p h w)
     = trace w @ [ParticleDisconnect]
       @ emitted (Particle_disconnect w)
           (snd (check p h CHECKMODE_AUTOMATIC (Particle_disconnect w)))
       @ [SystemReset]"
proof -
  let ?w1 = "Particle_disconnect w"
  have "trace (reset_keys_if_possible p h w)
          = trace (snd (check p h CHECKMODE_AUTOMATIC ?w1)) @ [SystemReset]"
    by (simp add: reset_keys_if_possible_def)
  also have "\<dots> = (trace ?w1 @ emitted ?w1 (snd (check p h CHECKMODE_AUTOMATIC ?w1)))
                    @ [SystemReset]"
    by (subst check_trace_append) (rule refl)
  finally show ?thesis by simp
qed

text \<open>One \<^verbatim>\<open>cloud_status_disconnected\<close> event below firmware 0.8.0, flag not set.\<close>

lemma disconnected_counts:
  assumes "SYSTEM_VERSION p < 0x00080000" "\<not> connected h"
  shows "eventHandler p cloud_status cloud_status_disconnected (h, w)
           = (h\<lparr>failureCount := failureCount h + 1\<rparr>,
              if 3 \<le> sint (failureCount h + 1) then reset_keys_if_possible p h w else w)"
  using assms
  by (simp add: eventHandler_def Let_def)

lemma connecting_clears:
  "eventHandler p cloud_status cloud_status_connecting (h, w) = (h\<lparr>connected := False\<rparr>, w)"
  by (simp add: eventHandler_def)

subsection \<open>Evaluating the sample device\<close>

lemmas sample_defs =
  sample_platform_def sample_helper_def sample_world_def sample_record_def bad_record_def
  store_save_def load_result_def new_DeviceKeyHelperSavedData_def

lemmas eval_defs =
  validateData_def calculateChecksum_def calculateChecksum_loop.simps keys_unchanged_def
  fresh_record_def memcmp0_def memcpy_def dct_read_app_data_copy_def dct_write_app_data_def
  System_reset_def Particle_disconnect_def call_save_def

lemma sample_record_valid: "validateData sample_platform sample_record"
  by (simp add: sample_defs eval_defs)

lemma bad_record_invalid: "\<not> validateData sample_platform bad_record"
  by (simp add: sample_defs eval_defs)

lemma sample_load_Stored:
  "load_result sample_platform sample_helper (sample_world live (Stored d)) = (True, d)"
  by (simp add: sample_defs)

lemma sample_load_Empty:
  "load_result sample_platform sample_helper (sample_world live Empty)
     = (False, new_DeviceKeyHelperSavedData sample_platform)"
  by (simp add: sample_defs)

lemma sample_load_Unreadable:
  "load_result sample_platform sample_helper (sample_world live (Unreadable d)) = (False, d)"
  by (simp add: sample_defs)

lemma sample_world_sel [simp]:
  "dct (sample_world live a) = live"
  "app (sample_world live a) = a"
  "new_onDevice_ok (sample_world live a)"
  "new_saved_ok (sample_world live a)"
  "trace (sample_world live a) = []"
  by (simp_all add: sample_world_def)

section \<open>The claims\<close>

subsection \<open>The record codec\<close>

text \<open>
  Claim C3. \<^verbatim>\<open>validateData\<close> accepts a record exactly when its magic is the sentinel,
  its size field is the size of the key region and its sum field is what
  \<^verbatim>\<open>calculateChecksum\<close> computes; that checksum is the sum of the payload bytes modulo
  \<open>2 ^ 16\<close>. Both are functions of the constants and the record alone: neither takes
  nor returns the state of the device.
\<close>

theorem validateData_iff:
  assumes "wf_saved p d"
  shows "(validateData p d \<longleftrightarrow>
            magic d = DATA_HEADER_MAGIC p
            \<and> unat (size_fld d) = DEVICE_KEYS_HELPER_SIZE p
            \<and> sum_fld d = calculateChecksum p d)
         \<and> unat (calculateChecksum p d) = sum_list (map unat (keys d)) mod 2 ^ 16"
proof -
  have "unat (calculateChecksum p d) = sum_list (map unat (keys d)) mod 2 ^ 16"
    using assms by (simp add: calculateChecksum_sum unat_of_nat)
  moreover have "validateData p d \<longleftrightarrow>
            magic d = DATA_HEADER_MAGIC p
            \<and> unat (size_fld d) = DEVICE_KEYS_HELPER_SIZE p
            \<and> sum_fld d = calculateChecksum p d"
    by (auto simp: validateData_def)
  ultimately show ?thesis by simp
qed

text \<open>The 258 bytes 255 add up to 65790, and the checksum is 254.\<close>

theorem validateData_iff_witness:
  "wf_saved wrap_platform wrap_record
   \<and> validateData wrap_platform wrap_record
   \<and> calculateChecksum wrap_platform wrap_record = 254"
proof -
  have wf: "wf_saved wrap_platform wrap_record"
    by (simp add: wf_saved_def wrap_platform_def wrap_record_def)
  have "unat (calculateChecksum wrap_platform wrap_record) = 254"
    using validateData_iff [OF wf] by (simp add: wrap_record_def sum_list_replicate)
  then have "unat (calculateChecksum wrap_platform wrap_record) = unat (254 :: 16 word)"
    by simp
  then have cs: "calculateChecksum wrap_platform wrap_record = 254"
    by (simp only: word_unat_eq_iff)
  show ?thesis using wf cs validateData_iff [OF wf]
    by (simp add: wrap_platform_def wrap_record_def)
qed

subsection \<open>The result of check\<close>

text \<open>
  Claim C10. \<^verbatim>\<open>check\<close> returns false exactly when both buffers were allocated, the
  load succeeded, the loaded record is valid, the mode is not
  \<^verbatim>\<open>CHECKMODE_SAVE_CURRENT\<close> and the \<^verbatim>\<open>memcmp\<close> of the live region with the record's keys
  over the size of the key region is not zero; in every other case it returns true.
\<close>

theorem check_false_iff:
  "\<not> fst (check p h m w) \<longleftrightarrow>
     new_onDevice_ok w \<and> new_saved_ok w
     \<and> fst (load_result p h w)
     \<and> validateData p (snd (load_result p h w))
     \<and> m \<noteq> CHECKMODE_SAVE_CURRENT
     \<and> \<not> memcmp0 (dct_read_app_data_copy p w) (keys (snd (load_result p h w)))
            (DEVICE_KEYS_HELPER_SIZE p)"
proof (cases "new_onDevice_ok w \<and> new_saved_ok w")
  case False
  then have "check p h m w = (True, w)" by (rule check_no_buffers)
  with False show ?thesis by auto
next
  case True
  show ?thesis
  proof (cases "fst (load_result p h w) \<and> validateData p (snd (load_result p h w))
                \<and> m \<noteq> CHECKMODE_SAVE_CURRENT")
    case compare: True
    with True have "fst (check p h m w)
        = memcmp0 (dct_read_app_data_copy p w) (keys (snd (load_result p h w)))
            (DEVICE_KEYS_HELPER_SIZE p)"
      by (simp add: check_compare_path)
    with True compare show ?thesis by simp
  next
    case save: False
    with True have "fst (check p h m w)" by (simp add: check_save_path)
    with save show ?thesis by blast
  qed
qed

text \<open>
  On the sample device: a valid backup that differs gives false in
  \<^verbatim>\<open>CHECKMODE_CHECK_ONLY\<close>; the same backup in \<^verbatim>\<open>CHECKMODE_SAVE_CURRENT\<close>, and a backup
  with a bad checksum, give true.
\<close>

theorem check_false_iff_witness:
  "\<not> fst (check sample_platform sample_helper CHECKMODE_CHECK_ONLY
             (sample_world [1, 2, 3, 5] (Stored sample_record)))
   \<and> fst (check sample_platform sample_helper CHECKMODE_SAVE_CURRENT
             (sample_world [1, 2, 3, 5] (Stored sample_record)))
   \<and> fst (check sample_platform sample_helper CHECKMODE_CHECK_ONLY
             (sample_world [1, 2, 3, 5] (Stored bad_record)))"
proof -
  have differs: "\<not> memcmp0 (dct_read_app_data_copy sample_platform
                     (sample_world [1, 2, 3, 5] (Stored sample_record)))
                   (keys sample_record) (DEVICE_KEYS_HELPER_SIZE sample_platform)"
    by (simp add: sample_defs eval_defs)
  have "\<not> fst (check sample_platform sample_helper CHECKMODE_CHECK_ONLY
             (sample_world [1, 2, 3, 5] (Stored sample_record)))"
    using differs sample_record_valid
    by (simp only: check_false_iff sample_load_Stored sample_world_sel fst_conv snd_conv
          simp_thms CheckMode.distinct)
  moreover have "fst (check sample_platform sample_helper CHECKMODE_SAVE_CURRENT
             (sample_world [1, 2, 3, 5] (Stored sample_record)))"
    using check_false_iff [of sample_platform sample_helper CHECKMODE_SAVE_CURRENT
            "sample_world [1, 2, 3, 5] (Stored sample_record)"]
    by simp
  moreover have "fst (check sample_platform sample_helper CHECKMODE_CHECK_ONLY
             (sample_world [1, 2, 3, 5] (Stored bad_record)))"
    using check_false_iff [of sample_platform sample_helper CHECKMODE_CHECK_ONLY
            "sample_world [1, 2, 3, 5] (Stored bad_record)"] bad_record_invalid
    by (simp add: sample_load_Stored)
  ultimately show ?thesis by simp
qed

subsection \<open>Restoring the keys\<close>

text \<open>
  Claim C1. In every mode and from every state, if \<^verbatim>\<open>check\<close> calls
  \<^verbatim>\<open>dct_write_app_data\<close> or leaves the live key region different from what it was,
  then both buffers were allocated, the load succeeded and the loaded record passed
  \<^verbatim>\<open>validateData\<close>; the single write carries the keys of that record. So a backup that
  is absent, fails to load or fails validation is never written onto the live region.
\<close>

theorem dct_write_only_validated:
  assumes "(\<exists>e \<in> set (emitted w (snd (check p h m w))). is_DctWrite e)
           \<or> dct (snd (check p h m w)) \<noteq> dct w"
  shows "new_onDevice_ok w \<and> new_saved_ok w
         \<and> fst (load_result p h w)
         \<and> validateData p (snd (load_result p h w))
         \<and> filter is_DctWrite (emitted w (snd (check p h m w)))
             = [DctWrite (take (DEVICE_KEYS_HELPER_SIZE p) (keys (snd (load_result p h w))))]"
proof -
  let ?d = "snd (load_result p h w)"
  let ?on = "dct_read_app_data_copy p w"
  have alloc: "new_onDevice_ok w \<and> new_saved_ok w"
  proof (rule ccontr)
    assume "\<not> ?thesis"
    then have "check p h m w = (True, w)" by (rule check_no_buffers)
    with assms show False by simp
  qed
  have restore: "fst (load_result p h w) \<and> validateData p ?d \<and> m \<noteq> CHECKMODE_SAVE_CURRENT"
  proof (rule ccontr)
    assume "\<not> ?thesis"
    with alloc have "snd (check p h m w)
        = (if keys_unchanged p ?on ?d then w else call_save h (fresh_record p ?on ?d) w)"
      by (simp add: check_save_path)
    with assms show False by (simp split: if_splits)
  qed
  have differs: "\<not> memcmp0 ?on (keys ?d) (DEVICE_KEYS_HELPER_SIZE p)"
  proof
    assume "memcmp0 ?on (keys ?d) (DEVICE_KEYS_HELPER_SIZE p)"
    with alloc restore have "check p h m w = (True, w)" by (simp add: check_compare_path)
    with assms show False by simp
  qed
  have not_only: "m \<noteq> CHECKMODE_CHECK_ONLY"
  proof
    assume "m = CHECKMODE_CHECK_ONLY"
    with alloc restore differs have "check p h m w = (False, w)"
      by (simp add: check_compare_path)
    with assms show False by simp
  qed
  from alloc restore differs not_only
  have "filter is_DctWrite (emitted w (snd (check p h m w)))
          = [DctWrite (take (DEVICE_KEYS_HELPER_SIZE p) (keys ?d))]"
    by (simp add: check_compare_path)
  with alloc restore show ?thesis by simp
qed

text \<open>
  On the sample device the valid backup 1, 2, 3, 4 replaces the live keys 1, 2, 3, 5 in
  \<^verbatim>\<open>CHECKMODE_AUTOMATIC_NO_RESTART\<close>.
\<close>

theorem dct_write_only_validated_witness:
  "dct (snd (check sample_platform sample_helper CHECKMODE_AUTOMATIC_NO_RESTART
               (sample_world [1, 2, 3, 5] (Stored sample_record)))) = [1, 2, 3, 4]
   \<and> validateData sample_platform
        (snd (load_result sample_platform sample_helper
               (sample_world [1, 2, 3, 5] (Stored sample_record))))
   \<and> filter is_DctWrite
        (emitted (sample_world [1, 2, 3, 5] (Stored sample_record))
           (snd (check sample_platform sample_helper CHECKMODE_AUTOMATIC_NO_RESTART
                  (sample_world [1, 2, 3, 5] (Stored sample_record)))))
       = [DctWrite [1, 2, 3, 4]]"
proof -
  let ?w = "sample_world [1, 2, 3, 5] (Stored sample_record)"
  have run: "dct (snd (check sample_platform sample_helper CHECKMODE_AUTOMATIC_NO_RESTART ?w))
               = [1, 2, 3, 4]"
    by (simp add: check_cases Let_def sample_load_Stored sample_record_valid)
       (simp add: sample_defs eval_defs)
  then have "dct (snd (check sample_platform sample_helper CHECKMODE_AUTOMATIC_NO_RESTART ?w))
               \<noteq> dct ?w"
    by simp
  then have "validateData sample_platform (snd (load_result sample_platform sample_helper ?w))
     \<and> filter is_DctWrite
          (emitted ?w (snd (check sample_platform sample_helper CHECKMODE_AUTOMATIC_NO_RESTART ?w)))
         = [DctWrite (take (DEVICE_KEYS_HELPER_SIZE sample_platform)
                       (keys (snd (load_result sample_platform sample_helper ?w))))]"
    using dct_write_only_validated
            [of ?w sample_platform sample_helper CHECKMODE_AUTOMATIC_NO_RESTART]
    by blast
  then show ?thesis using run
    by (simp add: sample_load_Stored) (simp add: sample_defs)
qed

text \<open>
  Claim C2. When both buffers are allocated, the load succeeds with a valid record and
  the record's keys differ from the live key region, \<^verbatim>\<open>check(CHECKMODE_AUTOMATIC)\<close>
  writes the record's keys over the live region, then calls \<^verbatim>\<open>System.reset()\<close>, and
  returns false; \<^verbatim>\<open>check(CHECKMODE_AUTOMATIC_NO_RESTART)\<close> does the same write, returns
  false and calls no reset. Nothing else changes.
\<close>

theorem check_automatic_restores:
  assumes "new_onDevice_ok w" "new_saved_ok w"
    and "wf_world p w"
    and "load_result p h w = (True, d)" "wf_saved p d" "validateData p d"
    and "keys d \<noteq> dct w"
  shows "check p h CHECKMODE_AUTOMATIC w
           = (False, w\<lparr>dct := keys d, trace := trace w @ [DctWrite (keys d), SystemReset]\<rparr>)
         \<and> check p h CHECKMODE_AUTOMATIC_NO_RESTART w
           = (False, w\<lparr>dct := keys d, trace := trace w @ [DctWrite (keys d)]\<rparr>)"
proof -
  have differs: "\<not> memcmp0 (dct_read_app_data_copy p w) (keys d) (DEVICE_KEYS_HELPER_SIZE p)"
    using assms(3,5,7) by (auto simp: memcmp0_wf)
  have restored: "dct_write_app_data p (keys d) w
                 = w\<lparr>dct := keys d, trace := trace w @ [DctWrite (keys d)]\<rparr>"
    using assms(3,5) by (rule dct_write_wf)
  have "check p h CHECKMODE_AUTOMATIC w
          = (False, System_reset (dct_write_app_data p (keys d) w))"
    using assms(1,2,4,6) differs by (simp add: check_compare_path)
  moreover have "check p h CHECKMODE_AUTOMATIC_NO_RESTART w
          = (False, dct_write_app_data p (keys d) w)"
    using assms(1,2,4,6) differs by (simp add: check_compare_path)
  ultimately show ?thesis
    by (simp add: restored System_reset_def)
qed

text \<open>The sample device with live keys 1, 2, 3, 5 and the valid backup 1, 2, 3, 4.\<close>

theorem check_automatic_restores_witness:
  "check sample_platform sample_helper CHECKMODE_AUTOMATIC
     (sample_world [1, 2, 3, 5] (Stored sample_record))
     = (False, \<lparr>dct = [1, 2, 3, 4], app = Stored sample_record, new_onDevice_ok = True,
                new_saved_ok = True, diag_chunks = [],
                trace = [DctWrite [1, 2, 3, 4], SystemReset]\<rparr>)
   \<and> check sample_platform sample_helper CHECKMODE_AUTOMATIC_NO_RESTART
     (sample_world [1, 2, 3, 5] (Stored sample_record))
     = (False, \<lparr>dct = [1, 2, 3, 4], app = Stored sample_record, new_onDevice_ok = True,
                new_saved_ok = True, diag_chunks = [],
                trace = [DctWrite [1, 2, 3, 4]]\<rparr>)"
proof -
  let ?w = "sample_world [1, 2, 3, 5] (Stored sample_record)"
  have a: "new_onDevice_ok ?w" "new_saved_ok ?w" by simp_all
  have b: "wf_world sample_platform ?w"
    by (simp add: wf_world_def sample_platform_def)
  have c: "wf_saved sample_platform sample_record"
    by (simp add: wf_saved_def sample_platform_def sample_record_def)
  have e: "keys sample_record \<noteq> dct ?w"
    by (simp add: sample_record_def)
  show ?thesis
    using check_automatic_restores [OF a b sample_load_Stored c sample_record_valid e]
    by (simp add: sample_world_def sample_record_def)
qed

subsection \<open>Saving the current keys\<close>

text \<open>
  Claim C4, as stated, fails: \<^verbatim>\<open>check(CHECKMODE_CHECK_ONLY)\<close> on a device with no backup
  calls \<^verbatim>\<open>save\<close>. The branches of lines 73 to 84 set \<^verbatim>\<open>saveKeys\<close> in every mode.
\<close>

theorem check_only_saves_counterexample:
  "trace (snd (check sample_platform sample_helper CHECKMODE_CHECK_ONLY
                 (sample_world [1, 2, 3, 5] Empty)))
     = [Save \<lparr>magic = 0x4B455953, size_fld = 4, sum_fld = 11, keys = [1, 2, 3, 5]\<rparr>]"
  by (simp add: check_save_path sample_load_Empty)
     (simp add: sample_defs eval_defs)

text \<open>
  Claim C4, amended. \<^verbatim>\<open>check(CHECKMODE_CHECK_ONLY)\<close> never changes the live key region,
  never calls \<^verbatim>\<open>dct_write_app_data\<close> and never calls \<^verbatim>\<open>System.reset()\<close>. When a valid
  record loads, diverging or not, it has no effect at all. Its only possible effect is
  one call of \<^verbatim>\<open>save\<close> with the fresh record, made when the load fails or the record
  fails validation and the buffer does not already hold that record.
\<close>

theorem check_only_effects:
  "dct (snd (check p h CHECKMODE_CHECK_ONLY w)) = dct w
   \<and> emitted w (snd (check p h CHECKMODE_CHECK_ONLY w))
       = (if new_onDevice_ok w \<and> new_saved_ok w
             \<and> \<not> (fst (load_result p h w) \<and> validateData p (snd (load_result p h w)))
             \<and> \<not> keys_unchanged p (dct_read_app_data_copy p w) (snd (load_result p h w))
          then [Save (fresh_record p (dct_read_app_data_copy p w) (snd (load_result p h w)))]
          else [])
   \<and> (fst (load_result p h w) \<and> validateData p (snd (load_result p h w))
        \<longrightarrow> snd (check p h CHECKMODE_CHECK_ONLY w) = w)"
proof (cases "new_onDevice_ok w \<and> new_saved_ok w")
  case False
  then have "check p h CHECKMODE_CHECK_ONLY w = (True, w)" by (rule check_no_buffers)
  with False show ?thesis by auto
next
  case True
  show ?thesis
  proof (cases "fst (load_result p h w) \<and> validateData p (snd (load_result p h w))")
    case valid: True
    with True have "snd (check p h CHECKMODE_CHECK_ONLY w) = w"
      by (simp add: check_compare_path)
    with valid show ?thesis by simp
  next
    case invalid: False
    with True have "snd (check p h CHECKMODE_CHECK_ONLY w)
        = (if keys_unchanged p (dct_read_app_data_copy p w) (snd (load_result p h w)) then w
           else call_save h
                  (fresh_record p (dct_read_app_data_copy p w) (snd (load_result p h w))) w)"
      by (simp add: check_save_path)
    with True invalid show ?thesis by auto
  qed
qed

text \<open>
  On the sample device: a diverging valid backup leaves everything as it was, and a
  missing backup leads to one save and no write.
\<close>

theorem check_only_effects_witness:
  "snd (check sample_platform sample_helper CHECKMODE_CHECK_ONLY
          (sample_world [1, 2, 3, 5] (Stored sample_record)))
     = sample_world [1, 2, 3, 5] (Stored sample_record)
   \<and> dct (snd (check sample_platform sample_helper CHECKMODE_CHECK_ONLY
                 (sample_world [1, 2, 3, 5] Empty))) = [1, 2, 3, 5]"
proof -
  have "fst (load_result sample_platform sample_helper
               (sample_world [1, 2, 3, 5] (Stored sample_record)))
        \<and> validateData sample_platform
             (snd (load_result sample_platform sample_helper
                    (sample_world [1, 2, 3, 5] (Stored sample_record))))"
    by (simp add: sample_load_Stored sample_record_valid)
  then have "snd (check sample_platform sample_helper CHECKMODE_CHECK_ONLY
          (sample_world [1, 2, 3, 5] (Stored sample_record)))
     = sample_world [1, 2, 3, 5] (Stored sample_record)"
    using check_only_effects [of sample_platform sample_helper
            "sample_world [1, 2, 3, 5] (Stored sample_record)"]
    by blast
  moreover have "dct (snd (check sample_platform sample_helper CHECKMODE_CHECK_ONLY
                 (sample_world [1, 2, 3, 5] Empty))) = [1, 2, 3, 5]"
    using check_only_effects [of sample_platform sample_helper "sample_world [1, 2, 3, 5] Empty"]
    by simp
  ultimately show ?thesis by simp
qed

text \<open>
  Claim C5, as stated, fails: \<^verbatim>\<open>load\<close> may report failure after it has filled the
  buffer. When that buffer holds the sentinel, the size, the right checksum and the live
  keys, the test of lines 87 to 90 clears \<^verbatim>\<open>saveKeys\<close> and nothing is saved.
\<close>

theorem check_automatic_no_save_counterexample:
  "\<not> fst (load_result sample_platform sample_helper
             (sample_world [1, 2, 3, 4] (Unreadable sample_record)))
   \<and> check sample_platform sample_helper CHECKMODE_AUTOMATIC
        (sample_world [1, 2, 3, 4] (Unreadable sample_record))
       = (True, sample_world [1, 2, 3, 4] (Unreadable sample_record))"
proof -
  have "keys_unchanged sample_platform
          (dct_read_app_data_copy sample_platform
             (sample_world [1, 2, 3, 4] (Unreadable sample_record)))
          sample_record"
    by (simp add: sample_defs eval_defs)
  then show ?thesis
    by (simp add: check_save_path sample_load_Unreadable)
qed

text \<open>
  Claim C5, amended. When both buffers are allocated and the load fails or the loaded
  record fails validation, \<^verbatim>\<open>check(CHECKMODE_AUTOMATIC)\<close> returns true, leaves the live
  key region as it is and writes nothing to it, and calls \<^verbatim>\<open>save\<close> once with a fresh
  record (sentinel magic, size of the key region, checksum computed from its payload,
  payload equal to the live key region, so a valid record), unless the buffer left by
  \<^verbatim>\<open>load\<close> already holds exactly that header and payload, in which case nothing is
  saved. The exception cannot arise when the loaded record fails validation, nor when a
  failed load leaves the zeroed buffer untouched and the key region is not empty.
\<close>

theorem check_automatic_saves:
  assumes "new_onDevice_ok w" "new_saved_ok w"
    and "wf_world p w" "wf_saved p (snd (load_result p h w))"
    and "DEVICE_KEYS_HELPER_SIZE p < 2 ^ 32"
    and "\<not> fst (load_result p h w) \<or> \<not> validateData p (snd (load_result p h w))"
  shows "fst (check p h CHECKMODE_AUTOMATIC w)
   \<and> dct (snd (check p h CHECKMODE_AUTOMATIC w)) = dct w
   \<and> emitted w (snd (check p h CHECKMODE_AUTOMATIC w))
       = (if keys_unchanged p (dct w) (snd (load_result p h w)) then []
          else [Save (fresh_record p (dct w) (snd (load_result p h w)))])
   \<and> magic (fresh_record p (dct w) (snd (load_result p h w))) = DATA_HEADER_MAGIC p
   \<and> unat (size_fld (fresh_record p (dct w) (snd (load_result p h w))))
       = DEVICE_KEYS_HELPER_SIZE p
   \<and> sum_fld (fresh_record p (dct w) (snd (load_result p h w)))
       = calculateChecksum p (fresh_record p (dct w) (snd (load_result p h w)))
   \<and> keys (fresh_record p (dct w) (snd (load_result p h w))) = dct w
   \<and> validateData p (fresh_record p (dct w) (snd (load_result p h w)))
   \<and> (\<not> validateData p (snd (load_result p h w))
        \<longrightarrow> \<not> keys_unchanged p (dct w) (snd (load_result p h w)))
   \<and> (snd (load_result p h w) = new_DeviceKeyHelperSavedData p
        \<and> DEVICE_KEYS_HELPER_SIZE p \<noteq> 0
        \<longrightarrow> \<not> keys_unchanged p (dct w) (snd (load_result p h w)))"
proof -
  let ?d = "snd (load_result p h w)"
  have on: "dct_read_app_data_copy p w = dct w"
    using assms(3) by (rule dct_read_wf)
  have "\<not> (fst (load_result p h w) \<and> validateData p ?d \<and> CHECKMODE_AUTOMATIC \<noteq> CHECKMODE_SAVE_CURRENT)"
    using assms(6) by simp
  then have run: "check p h CHECKMODE_AUTOMATIC w =
     (True, if keys_unchanged p (dct w) ?d then w else call_save h (fresh_record p (dct w) ?d) w)"
    using check_save_path [OF assms(1,2), of p h CHECKMODE_AUTOMATIC] on by simp
  have effects: "fst (check p h CHECKMODE_AUTOMATIC w)
   \<and> dct (snd (check p h CHECKMODE_AUTOMATIC w)) = dct w
   \<and> emitted w (snd (check p h CHECKMODE_AUTOMATIC w))
       = (if keys_unchanged p (dct w) ?d then [] else [Save (fresh_record p (dct w) ?d)])"
    by (simp add: run)
  have size_ok: "unat (size_fld (fresh_record p (dct w) ?d)) = DEVICE_KEYS_HELPER_SIZE p"
    using assms(5) by (simp add: fresh_record_header(2) unat_size_fld)
  have payload: "keys (fresh_record p (dct w) ?d) = dct w"
    using fresh_record_keys [OF assms(3,4)] on by simp
  have valid: "validateData p (fresh_record p (dct w) ?d)"
    using assms(5) by (rule fresh_record_valid)
  have zeroed: "DEVICE_KEYS_HELPER_SIZE p \<noteq> 0 \<Longrightarrow>
      \<not> keys_unchanged p (dct w) (new_DeviceKeyHelperSavedData p)"
    by (simp add: keys_unchanged_def new_DeviceKeyHelperSavedData_def)
  from effects size_ok payload valid zeroed show ?thesis
    by (auto simp: fresh_record_header(1) fresh_record_header(3) [symmetric]
          dest: invalid_not_unchanged)
qed

text \<open>
  On the sample device with live keys 1, 2, 3, 5: with no backup, and with a backup whose
  checksum is wrong, the record 1, 2, 3, 5 with checksum 11 is saved.
\<close>

theorem check_automatic_saves_witness:
  "emitted (sample_world [1, 2, 3, 5] Empty)
     (snd (check sample_platform sample_helper CHECKMODE_AUTOMATIC
             (sample_world [1, 2, 3, 5] Empty)))
     = [Save \<lparr>magic = 0x4B455953, size_fld = 4, sum_fld = 11, keys = [1, 2, 3, 5]\<rparr>]
   \<and> emitted (sample_world [1, 2, 3, 5] (Stored bad_record))
     (snd (check sample_platform sample_helper CHECKMODE_AUTOMATIC
             (sample_world [1, 2, 3, 5] (Stored bad_record))))
     = [Save \<lparr>magic = 0x4B455953, size_fld = 4, sum_fld = 11, keys = [1, 2, 3, 5]\<rparr>]"
proof -
  let ?w1 = "sample_world [1, 2, 3, 5] Empty"
  let ?w2 = "sample_world [1, 2, 3, 5] (Stored bad_record)"
  have sz: "DEVICE_KEYS_HELPER_SIZE sample_platform < 2 ^ 32"
    by (simp add: sample_platform_def)
  have wf1: "wf_world sample_platform ?w1" and wf2: "wf_world sample_platform ?w2"
    by (simp_all add: wf_world_def sample_platform_def)
  have d1: "wf_saved sample_platform (snd (load_result sample_platform sample_helper ?w1))"
    by (simp add: sample_load_Empty wf_saved_def new_DeviceKeyHelperSavedData_def)
  have d2: "wf_saved sample_platform (snd (load_result sample_platform sample_helper ?w2))"
    by (simp add: sample_load_Stored wf_saved_def) (simp add: bad_record_def sample_platform_def)
  have f1: "\<not> fst (load_result sample_platform sample_helper ?w1)
            \<or> \<not> validateData sample_platform (snd (load_result sample_platform sample_helper ?w1))"
    by (simp add: sample_load_Empty)
  have f2: "\<not> fst (load_result sample_platform sample_helper ?w2)
            \<or> \<not> validateData sample_platform (snd (load_result sample_platform sample_helper ?w2))"
    by (simp add: sample_load_Stored bad_record_invalid)
  have "emitted ?w1 (snd (check sample_platform sample_helper CHECKMODE_AUTOMATIC ?w1))
          = [Save \<lparr>magic = 0x4B455953, size_fld = 4, sum_fld = 11, keys = [1, 2, 3, 5]\<rparr>]"
    using check_automatic_saves [OF _ _ wf1 d1 sz f1]
    by (simp add: sample_load_Empty) (simp add: sample_defs eval_defs)
  moreover
  have "emitted ?w2 (snd (check sample_platform sample_helper CHECKMODE_AUTOMATIC ?w2))
          = [Save \<lparr>magic = 0x4B455953, size_fld = 4, sum_fld = 11, keys = [1, 2, 3, 5]\<rparr>]"
    using check_automatic_saves [OF _ _ wf2 d2 sz f2]
    by (simp add: sample_load_Stored) (simp add: sample_defs eval_defs)
  ultimately show ?thesis by simp
qed

subsection \<open>Saving twice\<close>

text \<open>
  Claim C6, as stated, fails: when the backup already holds the live keys, neither of
  two calls of \<^verbatim>\<open>check(CHECKMODE_SAVE_CURRENT)\<close> saves, so there is no backup write at all.
\<close>

theorem save_current_twice_counterexample:
  "save_count
     (trace (snd (check sample_platform sample_helper CHECKMODE_SAVE_CURRENT
               (snd (check sample_platform sample_helper CHECKMODE_SAVE_CURRENT
                       (sample_world [1, 2, 3, 4] (Stored sample_record))))))) = 0"
proof -
  let ?w = "sample_world [1, 2, 3, 4] (Stored sample_record)"
  have "keys_unchanged sample_platform (dct_read_app_data_copy sample_platform ?w) sample_record"
    by (simp add: sample_defs eval_defs)
  then have once: "check sample_platform sample_helper CHECKMODE_SAVE_CURRENT ?w = (True, ?w)"
    by (simp add: check_save_path sample_load_Stored)
  show ?thesis
    by (simp add: once save_count_def)
qed

text \<open>
  Claim C6, amended. Let both buffers be allocated and let the store return on
  \<^verbatim>\<open>load\<close> the record that \<^verbatim>\<open>save\<close> was given. Then of two calls of
  \<^verbatim>\<open>check(CHECKMODE_SAVE_CURRENT)\<close> in a row the second has no effect at all, because the
  buffer it loads already has the magic, size, checksum and payload that would be
  written; the first saves the fresh record once unless the buffer already held it. The two
  calls together make at most one backup write.
\<close>

theorem save_current_twice:
  assumes "new_onDevice_ok w" "new_saved_ok w"
    and "wf_world p w"
    and "DEVICE_KEYS_HELPER_SIZE p < 2 ^ 32"
    and "load h (snd (save h (app w) (fresh_record p (dct w) (snd (load_result p h w)))))
           (new_DeviceKeyHelperSavedData p)
         = (True, fresh_record p (dct w) (snd (load_result p h w)))"
  shows "snd (check p h CHECKMODE_SAVE_CURRENT (snd (check p h CHECKMODE_SAVE_CURRENT w)))
           = snd (check p h CHECKMODE_SAVE_CURRENT w)
         \<and> emitted w (snd (check p h CHECKMODE_SAVE_CURRENT w))
           = (if keys_unchanged p (dct w) (snd (load_result p h w)) then []
              else [Save (fresh_record p (dct w) (snd (load_result p h w)))])
         \<and> save_count (emitted w
             (snd (check p h CHECKMODE_SAVE_CURRENT (snd (check p h CHECKMODE_SAVE_CURRENT w)))))
           \<le> 1"
proof -
  let ?d = "snd (load_result p h w)"
  let ?fr = "fresh_record p (dct w) ?d"
  have on: "dct_read_app_data_copy p w = dct w"
    using assms(3) by (rule dct_read_wf)
  have len: "length (dct w) = DEVICE_KEYS_HELPER_SIZE p"
    using assms(3) by (simp add: wf_world_def)
  have first: "check p h CHECKMODE_SAVE_CURRENT w
                 = (True, if keys_unchanged p (dct w) ?d then w else call_save h ?fr w)"
    using check_save_path [OF assms(1,2), of p h CHECKMODE_SAVE_CURRENT] on by simp
  have second: "snd (check p h CHECKMODE_SAVE_CURRENT (snd (check p h CHECKMODE_SAVE_CURRENT w)))
                  = snd (check p h CHECKMODE_SAVE_CURRENT w)"
  proof (cases "keys_unchanged p (dct w) ?d")
    case True
    then show ?thesis by (simp add: first)
  next
    case False
    let ?w1 = "call_save h ?fr w"
    have w1: "snd (check p h CHECKMODE_SAVE_CURRENT w) = ?w1"
      using False by (simp add: first)
    have loaded: "load_result p h ?w1 = (True, ?fr)"
      using assms(5) by (simp add: load_result_def)
    have on1: "dct_read_app_data_copy p ?w1 = dct w"
      using on by (simp add: dct_read_app_data_copy_def)
    have "keys_unchanged p (dct w) ?fr"
      using len assms(4) by (rule fresh_record_unchanged)
    then have "check p h CHECKMODE_SAVE_CURRENT ?w1 = (True, ?w1)"
      using check_save_path [of ?w1 p h CHECKMODE_SAVE_CURRENT] assms(1,2) loaded on1
      by simp
    then show ?thesis by (simp add: w1)
  qed
  have effects: "emitted w (snd (check p h CHECKMODE_SAVE_CURRENT w))
           = (if keys_unchanged p (dct w) ?d then [] else [Save ?fr])"
    by (simp add: first)
  from second effects show ?thesis
    by (simp add: save_count_def)
qed

text \<open>
  On the sample device with live keys 1, 2, 3, 5 and the backup 1, 2, 3, 4: the first call
  saves 1, 2, 3, 5 and the second leaves the trace as it is.
\<close>

theorem save_current_twice_witness:
  "trace (snd (check sample_platform sample_helper CHECKMODE_SAVE_CURRENT
            (snd (check sample_platform sample_helper CHECKMODE_SAVE_CURRENT
                    (sample_world [1, 2, 3, 5] (Stored sample_record))))))
     = [Save \<lparr>magic = 0x4B455953, size_fld = 4, sum_fld = 11, keys = [1, 2, 3, 5]\<rparr>]"
proof -
  let ?w = "sample_world [1, 2, 3, 5] (Stored sample_record)"
  have wf: "wf_world sample_platform ?w"
    by (simp add: wf_world_def sample_platform_def)
  have sz: "DEVICE_KEYS_HELPER_SIZE sample_platform < 2 ^ 32"
    by (simp add: sample_platform_def)
  have persists: "load sample_helper
       (snd (save sample_helper (app ?w)
               (fresh_record sample_platform (dct ?w)
                  (snd (load_result sample_platform sample_helper ?w)))))
       (new_DeviceKeyHelperSavedData sample_platform)
     = (True, fresh_record sample_platform (dct ?w)
                (snd (load_result sample_platform sample_helper ?w)))"
    by (simp add: sample_helper_def store_save_def)
  have changed: "\<not> keys_unchanged sample_platform (dct ?w)
                     (snd (load_result sample_platform sample_helper ?w))"
    by (simp add: sample_load_Stored) (simp add: sample_defs eval_defs)
  have fr: "fresh_record sample_platform [1, 2, 3, 5]
              (snd (load_result sample_platform sample_helper ?w))
            = \<lparr>magic = 0x4B455953, size_fld = 4, sum_fld = 11, keys = [1, 2, 3, 5]\<rparr>"
    by (simp add: sample_load_Stored) (simp add: sample_defs eval_defs)
  from save_current_twice [OF _ _ wf sz persists] changed
  have again: "snd (check sample_platform sample_helper CHECKMODE_SAVE_CURRENT
               (snd (check sample_platform sample_helper CHECKMODE_SAVE_CURRENT ?w)))
          = snd (check sample_platform sample_helper CHECKMODE_SAVE_CURRENT ?w)"
    and once: "emitted ?w (snd (check sample_platform sample_helper CHECKMODE_SAVE_CURRENT ?w))
          = [Save (fresh_record sample_platform [1, 2, 3, 5]
                     (snd (load_result sample_platform sample_helper ?w)))]"
    by simp_all
  have "trace (snd (check sample_platform sample_helper CHECKMODE_SAVE_CURRENT ?w))
          = [Save (fresh_record sample_platform [1, 2, 3, 5]
                     (snd (load_result sample_platform sample_helper ?w)))]"
    using check_trace_append [of sample_platform sample_helper CHECKMODE_SAVE_CURRENT ?w]
    by (simp only: once sample_world_sel append_Nil)
  then show ?thesis
    by (simp only: again fr)
qed

subsection \<open>The connectivity monitor\<close>

text \<open>
  Claim C7. Below firmware 0.8.0 (no diagnostic code), a
  \<^verbatim>\<open>cloud_status_disconnected\<close> event that finds the flag \<^verbatim>\<open>connected\<close> cleared adds one
  to \<^verbatim>\<open>failureCount\<close> (a 32-bit increment) and runs the recovery sequence exactly when
  the new count, read as a signed number, is at least 3. The sequence is \<^verbatim>\<open>Particle.disconnect()\<close>, then the effects of
  \<^verbatim>\<open>check(CHECKMODE_AUTOMATIC)\<close>, then \<^verbatim>\<open>System.reset()\<close>. Starting from a count of 0, a
  connecting event followed by two disconnected events leaves the count at 2 and the
  device untouched; the third disconnected event raises it to 3 and runs the recovery.
\<close>

theorem disconnected_three_strikes:
  assumes "SYSTEM_VERSION p < 0x00080000"
  shows "(\<not> connected h \<longrightarrow>
            eventHandler p cloud_status cloud_status_disconnected (h, w)
              = (h\<lparr>failureCount := failureCount h + 1\<rparr>,
                 if 3 \<le> sint (failureCount h + 1) then reset_keys_if_possible p h w else w))
         \<and> (failureCount h = 0 \<longrightarrow>
              deliver p [cloud_status_connecting, cloud_status_disconnected] (h, w)
                = (h\<lparr>connected := False, failureCount := 1\<rparr>, w)
              \<and> deliver p [cloud_status_connecting, cloud_status_disconnected,
                            cloud_status_disconnected] (h, w)
                = (h\<lparr>connected := False, failureCount := 2\<rparr>, w)
              \<and> deliver p [cloud_status_connecting, cloud_status_disconnected,
                            cloud_status_disconnected, cloud_status_disconnected] (h, w)
                = (h\<lparr>connected := False, failureCount := 3\<rparr>, reset_keys_if_possible p h w))
         \<and> trace (reset_keys_if_possible p h w)
              = trace w @ [ParticleDisconnect]
                @ emitted (Particle_disconnect w)
                    (snd (check p h CHECKMODE_AUTOMATIC (Particle_disconnect w)))
                @ [SystemReset]"
proof -
  have step: "\<And>g v. \<not> connected g \<Longrightarrow>
      eventHandler p cloud_status cloud_status_disconnected (g, v)
        = (g\<lparr>failureCount := failureCount g + 1\<rparr>,
           if 3 \<le> sint (failureCount g + 1) then reset_keys_if_possible p g v else v)"
    using assms by (rule disconnected_counts)
  have scenario: "deliver p [cloud_status_connecting, cloud_status_disconnected] (h, w)
                = (h\<lparr>connected := False, failureCount := 1\<rparr>, w)
              \<and> deliver p [cloud_status_connecting, cloud_status_disconnected,
                            cloud_status_disconnected] (h, w)
                = (h\<lparr>connected := False, failureCount := 2\<rparr>, w)
              \<and> deliver p [cloud_status_connecting, cloud_status_disconnected,
                            cloud_status_disconnected, cloud_status_disconnected] (h, w)
                = (h\<lparr>connected := False, failureCount := 3\<rparr>, reset_keys_if_possible p h w)"
    if zero: "failureCount h = 0"
    using zero
    by (simp add: connecting_clears step)
  show ?thesis
  proof (intro conjI impI)
    assume "\<not> connected h"
    then show "eventHandler p cloud_status cloud_status_disconnected (h, w)
              = (h\<lparr>failureCount := failureCount h + 1\<rparr>,
                 if 3 \<le> sint (failureCount h + 1) then reset_keys_if_possible p h w else w)"
      by (rule step)
  next
    assume "failureCount h = 0"
    then show "deliver p [cloud_status_connecting, cloud_status_disconnected] (h, w)
                = (h\<lparr>connected := False, failureCount := 1\<rparr>, w)"
      by (rule scenario [THEN conjunct1])
  next
    assume "failureCount h = 0"
    then show "deliver p [cloud_status_connecting, cloud_status_disconnected,
                            cloud_status_disconnected] (h, w)
                = (h\<lparr>connected := False, failureCount := 2\<rparr>, w)"
      by (rule scenario [THEN conjunct2, THEN conjunct1])
  next
    assume "failureCount h = 0"
    then show "deliver p [cloud_status_connecting, cloud_status_disconnected,
                            cloud_status_disconnected, cloud_status_disconnected] (h, w)
                = (h\<lparr>connected := False, failureCount := 3\<rparr>, reset_keys_if_possible p h w)"
      by (rule scenario [THEN conjunct2, THEN conjunct2])
  next
    show "trace (reset_keys_if_possible p h w)
              = trace w @ [ParticleDisconnect]
                @ emitted (Particle_disconnect w)
                    (snd (check p h CHECKMODE_AUTOMATIC (Particle_disconnect w)))
                @ [SystemReset]"
      by (rule reset_keys_if_possible_trace)
  qed
qed

text \<open>
  On the sample device (firmware 0.7.0) without a backup: two failures leave the trace
  empty, the third disconnects, saves the current keys (there is nothing to restore) and
  resets. At a count of 2147483647 the increment wraps to the word 2147483648, which reads
  as -2147483648, and no recovery runs.
\<close>

theorem disconnected_three_strikes_witness:
  "eventHandler sample_platform cloud_status cloud_status_disconnected
     (sample_helper, sample_world [1, 2, 3, 5] Empty)
     = (sample_helper\<lparr>failureCount := 1\<rparr>, sample_world [1, 2, 3, 5] Empty)
   \<and> trace (snd (deliver sample_platform
                 [cloud_status_connecting, cloud_status_disconnected,
                  cloud_status_disconnected]
                 (sample_helper, sample_world [1, 2, 3, 5] Empty))) = []
   \<and> failureCount (fst (deliver sample_platform
                 [cloud_status_connecting, cloud_status_disconnected,
                  cloud_status_disconnected]
                 (sample_helper, sample_world [1, 2, 3, 5] Empty))) = 2
   \<and> trace (snd (deliver sample_platform
                 [cloud_status_connecting, cloud_status_disconnected,
                  cloud_status_disconnected, cloud_status_disconnected]
                 (sample_helper, sample_world [1, 2, 3, 5] Empty)))
       = [ParticleDisconnect,
          Save \<lparr>magic = 0x4B455953, size_fld = 4, sum_fld = 11, keys = [1, 2, 3, 5]\<rparr>,
          SystemReset]
   \<and> eventHandler sample_platform cloud_status cloud_status_disconnected
       (sample_helper\<lparr>failureCount := 2147483647\<rparr>, sample_world [1, 2, 3, 5] Empty)
       = (sample_helper\<lparr>failureCount := 2147483648\<rparr>, sample_world [1, 2, 3, 5] Empty)
   \<and> sint (2147483648 :: 32 word) = - 2147483648"
proof -
  let ?w = "sample_world [1, 2, 3, 5] Empty"
  have old: "SYSTEM_VERSION sample_platform < 0x00080000"
    by (simp add: sample_platform_def)
  have zero: "failureCount sample_helper = 0"
    by (simp add: sample_helper_def)
  have top_cleared: "\<not> connected (sample_helper\<lparr>failureCount := 2147483647\<rparr>)"
    by (simp add: sample_helper_def)
  note top = disconnected_three_strikes
               [OF old, of "sample_helper\<lparr>failureCount := 2147483647\<rparr>" ?w,
                THEN conjunct1, THEN mp, OF top_cleared]
  have reads: "sint (2147483648 :: 32 word) = - 2147483648"
    by simp
  have wraps: "eventHandler sample_platform cloud_status cloud_status_disconnected
                 (sample_helper\<lparr>failureCount := 2147483647\<rparr>, ?w)
               = (sample_helper\<lparr>failureCount := 2147483648\<rparr>, ?w)"
    using top reads by simp
  have cleared: "\<not> connected sample_helper"
    by (simp add: sample_helper_def)
  note all = disconnected_three_strikes [OF old, of sample_helper ?w]
  note one = all [THEN conjunct1, THEN mp, OF cleared]
  note run = all [THEN conjunct2, THEN conjunct1, THEN mp, OF zero]
  note two = run [THEN conjunct2, THEN conjunct1]
  note three = run [THEN conjunct2, THEN conjunct2]
  note seq = all [THEN conjunct2, THEN conjunct2]
  have ld: "load_result sample_platform sample_helper (Particle_disconnect ?w)
              = (False, new_DeviceKeyHelperSavedData sample_platform)"
    by (simp add: load_result_def sample_helper_def)
  have "emitted (Particle_disconnect ?w)
          (snd (check sample_platform sample_helper CHECKMODE_AUTOMATIC (Particle_disconnect ?w)))
        = [Save \<lparr>magic = 0x4B455953, size_fld = 4, sum_fld = 11, keys = [1, 2, 3, 5]\<rparr>]"
    by (simp add: check_save_path ld)
       (simp add: sample_defs eval_defs)
  with seq have "trace (reset_keys_if_possible sample_platform sample_helper ?w)
      = [ParticleDisconnect,
         Save \<lparr>magic = 0x4B455953, size_fld = 4, sum_fld = 11, keys = [1, 2, 3, 5]\<rparr>,
         SystemReset]"
    by simp
  moreover have "eventHandler sample_platform cloud_status cloud_status_disconnected
                   (sample_helper, ?w) = (sample_helper\<lparr>failureCount := 1\<rparr>, ?w)"
    using one by (simp add: zero)
  ultimately show ?thesis
    by (simp only: two three wraps reads fst_conv snd_conv sample_world_sel)
       (simp add: sample_helper_def)
qed

text \<open>
  Claim C8, as stated, fails: the handler has no branch that clears \<^verbatim>\<open>connected\<close> on a
  disconnected event. After a connected event, the flag is still set after a
  disconnected event, and three further disconnected events in a row, with no
  successful connection between them, leave \<^verbatim>\<open>failureCount\<close> at 0.
\<close>

theorem disconnected_keeps_flag_counterexample:
  "connected (fst (deliver sample_platform [cloud_status_connected, cloud_status_disconnected]
                     (sample_helper, sample_world [1, 2, 3, 5] Empty)))
   \<and> failureCount (fst (deliver sample_platform
                     [cloud_status_connected, cloud_status_disconnected,
                      cloud_status_disconnected, cloud_status_disconnected,
                      cloud_status_disconnected]
                     (sample_helper, sample_world [1, 2, 3, 5] Empty))) = 0"
  by (simp add: eventHandler_def Let_def)

text \<open>
  Claim C8, amended. A \<^verbatim>\<open>cloud_status_disconnected\<close> event delivered while the flag
  \<^verbatim>\<open>connected\<close> is set changes nothing, on every firmware version: the flag stays set,
  \<^verbatim>\<open>failureCount\<close> is not incremented and no recovery runs, however many such events
  follow one another. No disconnected event changes the flag: a
  \<^verbatim>\<open>cloud_status_connecting\<close> event clears it, a \<^verbatim>\<open>cloud_status_connected\<close> event sets
  it, and every other event leaves it as it is. A disconnected event increments
  \<^verbatim>\<open>failureCount\<close> exactly when it finds the flag clear on firmware below 0.8.0,
  whether or not another disconnected event came before it.
\<close>

theorem disconnected_while_connected:
  "(connected h \<longrightarrow>
      eventHandler p cloud_status cloud_status_disconnected (h, w) = (h, w)
      \<and> deliver p (replicate n cloud_status_disconnected) (h, w) = (h, w))
   \<and> connected (fst (eventHandler p event param (h, w)))
       = (if event = cloud_status \<and> param = cloud_status_connecting then False
          else if event = cloud_status \<and> param = cloud_status_connected then True
          else connected h)
   \<and> failureCount (fst (eventHandler p cloud_status cloud_status_disconnected (h, w)))
       = (if \<not> connected h \<and> SYSTEM_VERSION p < 0x00080000 then failureCount h + 1
          else failureCount h)
   \<and> failureCount h + 1 \<noteq> failureCount h"
proof -
  have unchanged: "deliver p (replicate n cloud_status_disconnected) (h, w) = (h, w)"
    if set: "connected h"
  proof -
    have one: "eventHandler p cloud_status cloud_status_disconnected (h, w) = (h, w)"
      using set by (simp add: eventHandler_def)
    show ?thesis by (induction n) (simp_all add: one)
  qed
  have flag: "connected (fst (eventHandler p event param (h, w)))
       = (if event = cloud_status \<and> param = cloud_status_connecting then False
          else if event = cloud_status \<and> param = cloud_status_connected then True
          else connected h)"
    by (simp add: eventHandler_def Let_def split: prod.splits)
  have count: "failureCount (fst (eventHandler p cloud_status cloud_status_disconnected (h, w)))
       = (if \<not> connected h \<and> SYSTEM_VERSION p < 0x00080000 then failureCount h + 1
          else failureCount h)"
    by (simp add: eventHandler_def Let_def split: prod.splits)
  have moved: "failureCount h + 1 \<noteq> failureCount h"
    by simp
  show ?thesis
  proof (intro conjI impI)
    assume "connected h"
    then show "eventHandler p cloud_status cloud_status_disconnected (h, w) = (h, w)"
      by (simp add: eventHandler_def)
  next
    assume "connected h"
    then show "deliver p (replicate n cloud_status_disconnected) (h, w) = (h, w)"
      by (rule unchanged)
  qed (rule flag count moved)+
qed

text \<open>
  On the sample device: with the flag set and a count of 2, five disconnected events
  change nothing; with the flag clear from the start and no connecting event, one
  disconnected event raises the count from 0 to 1 and leaves the flag clear.
\<close>

theorem disconnected_while_connected_witness:
  "deliver sample_platform (replicate 5 cloud_status_disconnected)
     (sample_helper\<lparr>connected := True, failureCount := 2\<rparr>, sample_world [1, 2, 3, 5] Empty)
   = (sample_helper\<lparr>connected := True, failureCount := 2\<rparr>, sample_world [1, 2, 3, 5] Empty)
   \<and> failureCount (fst (eventHandler sample_platform cloud_status cloud_status_disconnected
                          (sample_helper, sample_world [1, 2, 3, 5] Empty))) = 1
   \<and> \<not> connected (fst (eventHandler sample_platform cloud_status cloud_status_disconnected
                          (sample_helper, sample_world [1, 2, 3, 5] Empty)))"
proof -
  let ?w = "sample_world [1, 2, 3, 5] Empty"
  have set: "connected (sample_helper\<lparr>connected := True, failureCount := 2\<rparr>)"
    by simp
  note still = disconnected_while_connected
                 [of "sample_helper\<lparr>connected := True, failureCount := 2\<rparr>"
                     sample_platform ?w 5,
                  THEN conjunct1, THEN mp, OF set, THEN conjunct2]
  note start = disconnected_while_connected [of sample_helper sample_platform ?w]
  have "failureCount (fst (eventHandler sample_platform cloud_status cloud_status_disconnected
                             (sample_helper, ?w))) = 1"
    using start [THEN conjunct2, THEN conjunct2, THEN conjunct1]
    by (simp add: sample_helper_def sample_platform_def)
  moreover
  have "\<not> connected (fst (eventHandler sample_platform cloud_status cloud_status_disconnected
                             (sample_helper, ?w)))"
    using start [THEN conjunct2, THEN conjunct1,
                 of cloud_status cloud_status_disconnected]
    by (simp add: sample_helper_def)
  ultimately show ?thesis
    using still by simp
qed

text \<open>
  Claim C9. Every \<^verbatim>\<open>cloud_status_connected\<close> event sets the flag \<^verbatim>\<open>connected\<close>, sets
  \<^verbatim>\<open>failureCount\<close> to 0, keeps the callbacks, and leaves the device as
  \<^verbatim>\<open>check(CHECKMODE_SAVE_CURRENT)\<close> leaves it.
\<close>

theorem connected_resets_and_saves:
  "connected (fst (eventHandler p cloud_status cloud_status_connected (h, w)))
   \<and> failureCount (fst (eventHandler p cloud_status cloud_status_connected (h, w))) = 0
   \<and> load (fst (eventHandler p cloud_status cloud_status_connected (h, w))) = load h
   \<and> save (fst (eventHandler p cloud_status cloud_status_connected (h, w))) = save h
   \<and> snd (eventHandler p cloud_status cloud_status_connected (h, w))
       = snd (check p h CHECKMODE_SAVE_CURRENT w)"
proof -
  have "eventHandler p cloud_status cloud_status_connected (h, w)
          = (h\<lparr>connected := True, failureCount := 0\<rparr>,
             snd (check p (h\<lparr>connected := True, failureCount := 0\<rparr>) CHECKMODE_SAVE_CURRENT w))"
    by (simp add: eventHandler_def Let_def)
  then show ?thesis by simp
qed

text \<open>
  On the sample device after two failures: the count returns to 0 and the current keys
  are saved.
\<close>

theorem connected_resets_and_saves_witness:
  "failureCount (fst (eventHandler sample_platform cloud_status cloud_status_connected
                        (sample_helper\<lparr>failureCount := 2\<rparr>, sample_world [1, 2, 3, 5] Empty))) = 0
   \<and> connected (fst (eventHandler sample_platform cloud_status cloud_status_connected
                        (sample_helper\<lparr>failureCount := 2\<rparr>, sample_world [1, 2, 3, 5] Empty)))
   \<and> trace (snd (eventHandler sample_platform cloud_status cloud_status_connected
                        (sample_helper\<lparr>failureCount := 2\<rparr>, sample_world [1, 2, 3, 5] Empty)))
       = [Save \<lparr>magic = 0x4B455953, size_fld = 4, sum_fld = 11, keys = [1, 2, 3, 5]\<rparr>]"
proof -
  let ?w = "sample_world [1, 2, 3, 5] Empty"
  note all = connected_resets_and_saves
               [of sample_platform "sample_helper\<lparr>failureCount := 2\<rparr>" ?w]
  have "trace (snd (check sample_platform sample_helper CHECKMODE_SAVE_CURRENT ?w))
          = [Save \<lparr>magic = 0x4B455953, size_fld = 4, sum_fld = 11, keys = [1, 2, 3, 5]\<rparr>]"
    by (simp add: check_save_path sample_load_Empty)
       (simp add: sample_defs eval_defs)
  with all show ?thesis by simp
qed

end
